theory Spec2Isabelle
  imports Complex_Main "HOL-Library.Char_ord" "HOL-Library.List_Lexorder"
begin

section \<open>Entropy reconstruction and convergence analysis (plotting/convergence.py)\<close>

text \<open>
  The module computes with numpy float64 values. They are idealised as real numbers:
  rounding, overflow and signed zeros are not modelled. The places where a float
  operation leaves the finite numbers without raising (\<open>np.log(0)\<close>, a division by
  zero) are modelled with the type \<open>np_float\<close> below. The root finders and the scalar
  minimizer are scipy's: they are parameters of the model, represented by the part of
  their result object that the module reads.
\<close>

subsection \<open>Exceptions, float results, arrays\<close>

text \<open>
  The Python exceptions of the module. \<open>Unmodelled\<close> is no Python exception: it marks
  an input outside the fragment of a library function that the model covers.
\<close>

datatype py_error = IndexError | AssertionError | KeyError | ValueError | Unmodelled

text \<open>A float64 result: a finite number (idealised as a real), an infinity or nan.\<close>

datatype np_float = Finite real | PosInf | NegInf | NaN

text \<open>
  What \<open>np.loadtxt\<close> gives for a flat list of numbers: a 0-dimensional array when the
  file holds a single value, a 1-dimensional array otherwise.
\<close>

datatype ndarray = Scalar real | Vec "real list"

text \<open>
  Indexing a 1-dimensional array with an integer: a negative index counts from the end,
  an index out of range raises IndexError. Indexing a 0-dimensional array raises
  IndexError (too many indices).
\<close>

definition py_index :: "'a list \<Rightarrow> int \<Rightarrow> py_error + 'a" where
  "py_index xs i =
     (if 0 \<le> i \<and> i < int (length xs) then Inr (xs ! nat i)
      else if i < 0 \<and> - int (length xs) \<le> i then Inr (xs ! nat (int (length xs) + i))
      else Inl IndexError)"

definition nd_index :: "ndarray \<Rightarrow> int \<Rightarrow> py_error + real" where
  "nd_index a i = (case a of Scalar v \<Rightarrow> Inl IndexError | Vec xs \<Rightarrow> py_index xs i)"


text \<open>
  \<open>np.log\<close> of a float: the logarithm of a positive number, \<open>-inf\<close> at zero and nan
  below zero (with a RuntimeWarning, never an exception).
\<close>

definition np_log :: "real \<Rightarrow> np_float" where
  "np_log v = (if 0 < v then Finite (ln v) else if v = 0 then NegInf else NaN)"

text \<open>
  Float arithmetic on \<open>np_float\<close>, as far as \<open>entropy_boundary_badness\<close> uses it. A zero
  divisor is the positive zero (the difference of two equal floats is \<open>+0.0\<close>).
\<close>

fun np_neg :: "np_float \<Rightarrow> np_float" where
  "np_neg (Finite a) = Finite (- a)"
| "np_neg PosInf = NegInf"
| "np_neg NegInf = PosInf"
| "np_neg NaN = NaN"

fun np_add :: "np_float \<Rightarrow> np_float \<Rightarrow> np_float" where
  "np_add (Finite a) (Finite b) = Finite (a + b)"
| "np_add NaN _ = NaN"
| "np_add _ NaN = NaN"
| "np_add PosInf NegInf = NaN"
| "np_add NegInf PosInf = NaN"
| "np_add PosInf _ = PosInf"
| "np_add _ PosInf = PosInf"
| "np_add NegInf _ = NegInf"
| "np_add _ NegInf = NegInf"

definition np_sub :: "np_float \<Rightarrow> np_float \<Rightarrow> np_float" where
  "np_sub a b = np_add a (np_neg b)"

fun np_abs :: "np_float \<Rightarrow> np_float" where
  "np_abs (Finite a) = Finite \<bar>a\<bar>"
| "np_abs PosInf = PosInf"
| "np_abs NegInf = PosInf"
| "np_abs NaN = NaN"

fun np_div :: "np_float \<Rightarrow> np_float \<Rightarrow> np_float" where
  "np_div (Finite a) (Finite b) =
     (if b \<noteq> 0 then Finite (a / b)
      else if 0 < a then PosInf else if a < 0 then NegInf else NaN)"
| "np_div NaN _ = NaN"
| "np_div _ NaN = NaN"
| "np_div (Finite a) _ = Finite 0"
| "np_div PosInf (Finite b) = (if 0 \<le> b then PosInf else NegInf)"
| "np_div NegInf (Finite b) = (if 0 \<le> b then NegInf else PosInf)"
| "np_div _ _ = NaN"

subsection \<open>The bin-entropy residual and the moment-matching root function\<close>

text \<open>
  \<open>fn_entropy(S_i_1, E_i_1, E_i, lnw_i, S_i)\<close>: the assertion \<open>delta_E > 0\<close> is a
  branch of the model; the statements after the two returns are unreachable.
\<close>

definition fn_entropy :: "real \<Rightarrow> real \<Rightarrow> real \<Rightarrow> real \<Rightarrow> real \<Rightarrow> py_error + real" where
  "fn_entropy S_i_1 E_i_1 E_i lnw_i S_i =
     (let delta_E = E_i_1 - E_i in
      if \<not> delta_E > 0 then Inl AssertionError
      else
        let delta_S = S_i_1 - S_i; S_0 = S_i_1 in
        if \<bar>delta_S\<bar> < 1 / 10 ^ 14 then Inr (ln delta_E + S_0 - lnw_i)
        else Inr (ln delta_E + S_0 - ln ((exp delta_S - 1) / delta_S) - lnw_i))"

text \<open>\<open>fn_for_beta(x, meanE_over_deltaE)\<close>: the test is \<open>x < 1e-14\<close>, on \<open>x\<close> itself.\<close>

definition fn_for_beta :: "real \<Rightarrow> real \<Rightarrow> real" where
  "fn_for_beta x meanE_over_deltaE =
     (if x < 1 / 10 ^ 14 then 0.5 * x - x * meanE_over_deltaE
      else x / (1 - exp (- x)) - 1 - x * meanE_over_deltaE)"

subsection \<open>The per-bin solver and the chain builder\<close>

text \<open>
  \<open>scipy.optimize.root\<close> is a parameter: given the callable and the seed it answers a
  result object, of which the module reads \<open>sol.x[0]\<close> only; \<open>sol.success\<close> is the
  flag scipy sets on convergence. scipy evaluates the callable at the seed before it
  iterates, so an exception of \<open>fn_entropy\<close> (which does not depend on the first
  argument) leaves \<open>optimize_bin_entropy\<close>; scipy itself raises nothing when the
  iteration does not converge.
\<close>

record root_result =
  sol_x :: real
  sol_success :: bool

type_synonym root_finder = "(real \<Rightarrow> py_error + real) \<Rightarrow> real \<Rightarrow> root_result"

definition optimize_bin_entropy ::
  "root_finder \<Rightarrow> int \<Rightarrow> real list \<Rightarrow> ndarray \<Rightarrow> real \<Rightarrow> py_error + real" where
  "optimize_bin_entropy opt_root i E_bounds lnw S_i =
     (case py_index E_bounds (i - 1) of Inl e \<Rightarrow> Inl e | Inr E_i_1 \<Rightarrow>
      case py_index E_bounds i of Inl e \<Rightarrow> Inl e | Inr E_i \<Rightarrow>
      case nd_index lnw i of Inl e \<Rightarrow> Inl e | Inr lnw_i \<Rightarrow>
      (let f = (\<lambda>S_i_1. fn_entropy S_i_1 E_i_1 E_i lnw_i S_i) in
       case f 0 of Inl e \<Rightarrow> Inl e | Inr r \<Rightarrow> Inr (sol_x (opt_root f 0))))"

text \<open>
  The loop of \<open>compute_entropy_given_Smin\<close> over \<open>range(len(energy_boundaries)-1, 1, -1)\<close>,
  that is \<open>i = len-1, ..., 2\<close>: it reads \<open>entropy_boundaries[i]\<close> and writes
  \<open>entropy_boundaries[i-1]\<close>, both in range for these \<open>i\<close>.
\<close>

fun chain_loop ::
  "root_finder \<Rightarrow> real list \<Rightarrow> ndarray \<Rightarrow> nat list \<Rightarrow> real list \<Rightarrow> py_error + real list" where
  "chain_loop opt_root energy_boundaries lnw [] entropy_boundaries = Inr entropy_boundaries"
| "chain_loop opt_root energy_boundaries lnw (i # rest) entropy_boundaries =
     (case optimize_bin_entropy opt_root (int i) energy_boundaries lnw (entropy_boundaries ! i) of
        Inl e \<Rightarrow> Inl e
      | Inr v \<Rightarrow> chain_loop opt_root energy_boundaries lnw rest (entropy_boundaries[i - 1 := v]))"

definition compute_entropy_given_Smin ::
  "root_finder \<Rightarrow> real \<Rightarrow> real list \<Rightarrow> ndarray \<Rightarrow> py_error + real list" where
  "compute_entropy_given_Smin opt_root Smin energy_boundaries lnw =
     (let n = length energy_boundaries;
          entropy_boundaries = replicate n 0
      in if n = 0 then Inl IndexError
         else chain_loop opt_root energy_boundaries lnw (rev [2..<n])
                (entropy_boundaries[n - 1 := Smin]))"

subsection \<open>The smoothness penalty and the calibration\<close>

text \<open>
  The loop of \<open>entropy_boundary_badness\<close> over \<open>range(len(energy_boundaries)-2)\<close>. A
  float division by zero raises nothing: numpy answers an infinity or nan.
\<close>

fun badness_loop :: "real list \<Rightarrow> real list \<Rightarrow> nat list \<Rightarrow> np_float \<Rightarrow> np_float" where
  "badness_loop energy_boundaries entropy_boundaries [] badness = badness"
| "badness_loop energy_boundaries entropy_boundaries (i # rest) badness =
     (let de1 = energy_boundaries ! (i + 1) - energy_boundaries ! i;
          de2 = energy_boundaries ! (i + 2) - energy_boundaries ! (i + 1);
          dS1 = entropy_boundaries ! (i + 1) - entropy_boundaries ! i;
          dS2 = entropy_boundaries ! (i + 2) - entropy_boundaries ! (i + 1)
      in badness_loop energy_boundaries entropy_boundaries rest
           (np_add badness
              (np_abs (np_div (np_sub (np_div (Finite dS2) (Finite de2))
                                      (np_div (Finite dS1) (Finite de1)))
                              (Finite (de2 + de1))))))"

definition entropy_boundary_badness ::
  "root_finder \<Rightarrow> real \<Rightarrow> real list \<Rightarrow> ndarray \<Rightarrow> py_error + np_float" where
  "entropy_boundary_badness opt_root Smin energy_boundaries lnw =
     (case compute_entropy_given_Smin opt_root Smin energy_boundaries lnw of
        Inl e \<Rightarrow> Inl e
      | Inr entropy_boundaries \<Rightarrow>
          Inr (badness_loop energy_boundaries entropy_boundaries
                 [0..<length energy_boundaries - 2] (Finite 0)))"

text \<open>
  \<open>scipy.optimize.minimize_scalar\<close> is a parameter: given the objective it answers
  \<open>res.x\<close>. An exception of the objective inside the minimizer leaves
  \<open>optimize_entropy\<close>; it is the exception the rebuild below raises, since whether
  the chain raises does not depend on \<open>Smin\<close> (lemma \<open>chain_error_independent\<close>).
\<close>

type_synonym minimizer = "(real \<Rightarrow> py_error + np_float) \<Rightarrow> real"

definition optimize_entropy ::
  "minimizer \<Rightarrow> root_finder \<Rightarrow> real list \<Rightarrow> ndarray \<Rightarrow> py_error + real list" where
  "optimize_entropy minimize_scalar opt_root energy_boundaries lnw =
     (let Smin = minimize_scalar
                   (\<lambda>Smin. entropy_boundary_badness opt_root Smin energy_boundaries lnw)
      in compute_entropy_given_Smin opt_root Smin energy_boundaries lnw)"

subsection \<open>The moment-matching root finder\<close>

text \<open>
  \<open>scipy.optimize.root_scalar\<close> with two seeds (the secant method) is a parameter; the
  module reads \<open>sol.root\<close> only, \<open>sol.converged\<close> is scipy's convergence flag.
\<close>

record scalar_result =
  sol_root :: real
  sol_converged :: bool

type_synonym scalar_root_finder = "(real \<Rightarrow> real) \<Rightarrow> real \<Rightarrow> real \<Rightarrow> scalar_result"

definition find_beta_deltaE :: "scalar_root_finder \<Rightarrow> real \<Rightarrow> real" where
  "find_beta_deltaE root_scalar meanE_over_deltaE =
     (let x0 = (if meanE_over_deltaE = 0 then 1 / 10 ^ 6 else 2 * meanE_over_deltaE);
          x1 = (if meanE_over_deltaE = 0 then - (1 / 10 ^ 6) else meanE_over_deltaE)
      in sol_root (root_scalar (\<lambda>x. fn_for_beta x meanE_over_deltaE) x0 x1))"

subsection \<open>Loading one run\<close>



subsection \<open>Selecting and evaluating the reference density of states\<close>

text \<open>
  The run's metadata is the mapping \<open>yaml.safe_load\<close> returned; a missing key raises
  KeyError. \<open>sub in s\<close> on strings is \<open>py_in sub s\<close>.
\<close>

datatype yaml = YStr string | YNum real

fun starts_with :: "string \<Rightarrow> string \<Rightarrow> bool" where
  "starts_with [] s = True"
| "starts_with (p # ps) [] = False"
| "starts_with (p # ps) (c # cs) = (p = c \<and> starts_with ps cs)"

fun py_in :: "string \<Rightarrow> string \<Rightarrow> bool" where
  "py_in sub [] = (sub = [])"
| "py_in sub (c # cs) = (starts_with sub (c # cs) \<or> py_in sub cs)"

text \<open>
  The function bound to \<open>exact_density_of_states\<close>, with the parameters the branch
  read from the metadata into the module's globals.
\<close>

datatype density_fn =
    Linear
  | Quadratic
  | Gaussian yaml
  | Erfinv yaml yaml
  | Pieces yaml yaml yaml yaml
  | Other

definition lookup :: "(string \<rightharpoonup> yaml) \<Rightarrow> string \<Rightarrow> py_error + yaml" where
  "lookup d k = (case d k of None \<Rightarrow> Inl KeyError | Some v \<Rightarrow> Inr v)"

definition exact_density_of_states :: "string \<Rightarrow> (string \<rightharpoonup> yaml) \<Rightarrow> py_error + density_fn" where
  "exact_density_of_states base system =
     (if py_in ''linear'' base then Inr Linear
      else if py_in ''quadratic'' base then Inr Quadratic
      else case lookup system ''kind'' of Inl e \<Rightarrow> Inl e | Inr kind \<Rightarrow>
        if kind = YStr ''Gaussian'' then
          (case lookup system ''sigma'' of Inl e \<Rightarrow> Inl e | Inr sigma \<Rightarrow> Inr (Gaussian sigma))
        else if kind = YStr ''Erfinv'' then
          (case lookup system ''mean_energy'' of Inl e \<Rightarrow> Inl e | Inr mean_erfinv_energy \<Rightarrow>
           case lookup system ''N'' of Inl e \<Rightarrow> Inl e | Inr N \<Rightarrow>
             Inr (Erfinv mean_erfinv_energy N))
        else if kind = YStr ''Pieces'' then
          (case lookup system ''a'' of Inl e \<Rightarrow> Inl e | Inr a \<Rightarrow>
           case lookup system ''b'' of Inl e \<Rightarrow> Inl e | Inr b \<Rightarrow>
           case lookup system ''e1'' of Inl e \<Rightarrow> Inl e | Inr e1 \<Rightarrow>
           case lookup system ''e2'' of Inl e \<Rightarrow> Inl e | Inr e2 \<Rightarrow>
             Inr (Pieces a b e1 e2))
        else Inr Other)"

text \<open>
  \<open>other_density_of_states(E) = np.zeros_like(E)\<close> on the grid \<open>E\<close>, and the line
  \<open>exact_entropy = np.log(exact_density_of_states(E))\<close>.
\<close>

definition other_density_of_states :: "real list \<Rightarrow> real list" where
  "other_density_of_states E = replicate (length E) 0"

definition exact_entropy :: "(real list \<Rightarrow> real list) \<Rightarrow> real list \<Rightarrow> np_float list" where
  "exact_entropy density E = map np_log (density E)"

subsection \<open>The checkpoint loop\<close>

text \<open>\<open>os.path.basename\<close> and the first component of \<open>os.path.splitext\<close> (POSIX).\<close>

definition basename :: "string \<Rightarrow> string" where
  "basename p = rev (takeWhile (\<lambda>c. c \<noteq> CHR ''/'') (rev p))"

definition splitext_root :: "string \<Rightarrow> string" where
  "splitext_root p =
     (let name = basename p;
          ext = rev (takeWhile (\<lambda>c. c \<noteq> CHR ''.'') (rev name));
          stem = take (length name - length ext - 1) name
      in if length ext < length name \<and> list_ex (\<lambda>c. c \<noteq> CHR ''.'') stem
         then take (length p - length ext - 1) p
         else p)"

text \<open>
  The loop \<open>for f in sorted(glob.glob(base+'/*.cbor'))\<close>: \<open>globbed\<close> is the list of paths
  glob returned, \<open>sorted\<close> orders the path strings (by code point, as text), \<open>float_of\<close>
  is Python's \<open>float\<close> and \<open>max_error\<close> stands for the rest of the loop body, which
  loads the checkpoint, rebuilds the entropy and measures the error. The result is the
  pair of lists \<open>(moves[base], error[base])\<close>.
\<close>

fun tracker_loop ::
  "(string \<Rightarrow> py_error + real) \<Rightarrow> (string \<Rightarrow> py_error + real) \<Rightarrow> string list
     \<Rightarrow> real list \<times> real list \<Rightarrow> py_error + real list \<times> real list" where
  "tracker_loop float_of max_error [] (moves, error) = Inr (moves, error)"
| "tracker_loop float_of max_error (f # rest) (moves, error) =
     (let f = splitext_root f in
      case float_of (basename f) of Inl e \<Rightarrow> Inl e | Inr mymove \<Rightarrow>
      case max_error f of Inl e \<Rightarrow> Inl e | Inr err \<Rightarrow>
        tracker_loop float_of max_error rest (moves @ [mymove], error @ [err]))"

definition convergence_series ::
  "(string \<Rightarrow> py_error + real) \<Rightarrow> (string \<Rightarrow> py_error + real) \<Rightarrow> string list
     \<Rightarrow> py_error + real list \<times> real list" where
  "convergence_series float_of max_error globbed =
     tracker_loop float_of max_error (sort globbed) ([], [])"

text \<open>
  Python's \<open>float\<close> on strings of ASCII decimal digits: the number written, and
  ValueError for the empty string. The other forms \<open>float\<close> reads (sign, point,
  exponent, surrounding blanks, underscores, \<open>inf\<close>, \<open>nan\<close>) and the strings it refuses are
  outside the model and answered \<open>Unmodelled\<close>.
\<close>

definition digit_value :: "char \<Rightarrow> nat option" where
  "digit_value c =
     (let k = (of_char c :: nat) in if 48 \<le> k \<and> k \<le> 57 then Some (k - 48) else None)"

fun digits_value :: "string \<Rightarrow> nat \<Rightarrow> nat option" where
  "digits_value [] acc = Some acc"
| "digits_value (c # cs) acc =
     (case digit_value c of None \<Rightarrow> None | Some d \<Rightarrow> digits_value cs (10 * acc + d))"

definition float_of_digits :: "string \<Rightarrow> py_error + real" where
  "float_of_digits s =
     (if s = [] then Inl ValueError
      else case digits_value s 0 of None \<Rightarrow> Inl Unmodelled | Some n \<Rightarrow> Inr (real n))"

subsection \<open>Stand-ins for scipy in concrete evaluations\<close>

text \<open>
  One run of a scipy routine as seen by the module: the routine answers the given
  final iterate and convergence flag, whatever the callable.
\<close>

definition fixed_root :: "real \<Rightarrow> bool \<Rightarrow> root_finder" where
  "fixed_root v ok f x0 = \<lparr>sol_x = v, sol_success = ok\<rparr>"

definition fixed_root_scalar :: "real \<Rightarrow> bool \<Rightarrow> scalar_root_finder" where
  "fixed_root_scalar v ok f x0 x1 = \<lparr>sol_root = v, sol_converged = ok\<rparr>"

definition fixed_minimizer :: "real \<Rightarrow> minimizer" where
  "fixed_minimizer v objective = v"

subsection \<open>Predicates used in the statements\<close>


text \<open>
  Bin \<open>i\<close> can be handed to the solver: \<open>lnw[i]\<close> exists and the assertion of
  \<open>fn_entropy\<close> holds for the boundaries \<open>i - 1\<close> and \<open>i\<close>.
\<close>

definition bin_solvable :: "real list \<Rightarrow> ndarray \<Rightarrow> nat \<Rightarrow> bool" where
  "bin_solvable E lnw i =
     ((case lnw of Scalar v \<Rightarrow> False | Vec ws \<Rightarrow> i < length ws) \<and> E ! i < E ! (i - 1))"

text \<open>The penalty's term at the interior boundary \<open>i + 1\<close>, over the reals.\<close>

definition slope_jump :: "real list \<Rightarrow> real list \<Rightarrow> nat \<Rightarrow> real" where
  "slope_jump E S i =
     \<bar>((S ! (i + 2) - S ! (i + 1)) / (E ! (i + 2) - E ! (i + 1))
        - (S ! (i + 1) - S ! i) / (E ! (i + 1) - E ! i))
       / ((E ! (i + 1) - E ! i) + (E ! (i + 2) - E ! (i + 1)))\<bar>"

text \<open>No divisor of the penalty is zero, at any interior boundary.\<close>

definition no_zero_divisor :: "real list \<Rightarrow> bool" where
  "no_zero_divisor E =
     list_all (\<lambda>i. E ! (i + 1) \<noteq> E ! i \<and> E ! (i + 2) \<noteq> E ! (i + 1) \<and> E ! (i + 2) \<noteq> E ! i)
       [0..<length E - 2]"

definition is_finite :: "np_float \<Rightarrow> bool" where
  "is_finite v =
     (case v of Finite a \<Rightarrow> True | PosInf \<Rightarrow> False | NegInf \<Rightarrow> False | NaN \<Rightarrow> False)"

section \<open>Properties\<close>

subsection \<open>Properties of the residual\<close>

lemma expm1_over_pos:
  fixes d :: real
  assumes "d \<noteq> 0"
  shows "0 < (exp d - 1) / d"
proof (cases "0 < d")
  case True
  then have "0 < exp d - 1" by simp
  with True show ?thesis by simp
next
  case False
  with assms have neg: "d < 0" by simp
  then have "exp d - 1 < 0" by simp
  with neg show ?thesis by (simp add: divide_neg_neg)
qed

text \<open>
  C1 (as amended). For a bin with \<open>E_i_1 > E_i\<close> and \<open>|delta_S| \<ge> 1e-14\<close>, the residual is
  \<open>log(delta_E) + S_0 - log((exp(delta_S) - 1) / delta_S) - lnw_i\<close> with
  \<open>delta_E = E_i_1 - E_i > 0\<close>, \<open>delta_S = S_i_1 - S_i\<close> and \<open>S_0 = S_i_1\<close>, the candidate
  entropy of the boundary being solved for (the first argument), not the known
  entropy \<open>S_i\<close>. Both logarithms are taken at positive numbers.
\<close>

theorem fn_entropy_general_branch:
  assumes "E_i < E_i_1" and "1 / 10 ^ 14 \<le> \<bar>S_i_1 - S_i\<bar>"
  shows "fn_entropy S_i_1 E_i_1 E_i lnw_i S_i =
           Inr (ln (E_i_1 - E_i) + S_i_1
                - ln ((exp (S_i_1 - S_i) - 1) / (S_i_1 - S_i)) - lnw_i)
         \<and> 0 < E_i_1 - E_i
         \<and> 0 < (exp (S_i_1 - S_i) - 1) / (S_i_1 - S_i)"
proof -
  from assms(2) have "S_i_1 - S_i \<noteq> 0" by auto
  then have "0 < (exp (S_i_1 - S_i) - 1) / (S_i_1 - S_i)" by (rule expm1_over_pos)
  moreover from assms have "fn_entropy S_i_1 E_i_1 E_i lnw_i S_i =
      Inr (ln (E_i_1 - E_i) + S_i_1
           - ln ((exp (S_i_1 - S_i) - 1) / (S_i_1 - S_i)) - lnw_i)"
    by (simp add: fn_entropy_def Let_def)
  moreover from assms(1) have "0 < E_i_1 - E_i" by simp
  ultimately show ?thesis by simp
qed

theorem fn_entropy_general_branch_witness:
  "fn_entropy 1 1 0 0 0 = Inr (ln (1 - 0) + 1 - ln ((exp (1 - 0) - 1) / (1 - 0)) - 0)
   \<and> (0::real) < 1 - 0
   \<and> (0::real) < (exp (1 - 0) - 1) / (1 - 0)"
  using fn_entropy_general_branch [of 0 1 1 0 0] by simp

text \<open>
  C1 (as stated) fails: at \<open>S_i_1 = 1\<close>, \<open>E_i_1 = 1\<close>, \<open>E_i = 0\<close>, \<open>lnw_i = 0\<close>,
  \<open>S_i = 0\<close> the residual is not the stated expression with \<open>S_0 = S_i\<close>, whether
  \<open>delta_E\<close> is read as \<open>E_i - E_i_1\<close> (as written) or as \<open>E_i_1 - E_i\<close>.
\<close>

theorem fn_entropy_S0_counterexample:
  "fn_entropy 1 1 0 0 0 \<noteq> Inr (ln (0 - 1) + 0 - ln ((exp (1 - 0) - 1) / (1 - 0)) - 0)
   \<and> fn_entropy 1 1 0 0 0 \<noteq> Inr (ln (1 - 0) + 0 - ln ((exp (1 - 0) - 1) / (1 - 0)) - 0)"
  by (simp add: fn_entropy_def Let_def ln_minus)

lemma fn_entropy_degenerate_branch:
  assumes "E_i < E_i_1" and "\<bar>S_i_1 - S_i\<bar> < 1 / 10 ^ 14"
  shows "fn_entropy S_i_1 E_i_1 E_i lnw_i S_i = Inr (ln (E_i_1 - E_i) + S_i_1 - lnw_i)"
  using assms by (simp add: fn_entropy_def Let_def)

lemma fn_entropy_raises:
  "fn_entropy s a b l t = Inl e \<longleftrightarrow> (\<not> b < a \<and> e = AssertionError)"
  by (auto simp add: fn_entropy_def Let_def)

subsection \<open>Properties of the moment-matching root function\<close>

lemma fn_for_beta_small:
  assumes "\<bar>x\<bar> < 1 / 10 ^ 14"
  shows "fn_for_beta x r = 0.5 * x - x * r"
proof -
  from assms have "x < 1 / 10 ^ 14" by linarith
  then show ?thesis by (simp add: fn_for_beta_def)
qed

lemma fn_for_beta_positive:
  assumes "1 / 10 ^ 14 \<le> x"
  shows "fn_for_beta x r = x / (1 - exp (- x)) - 1 - x * r \<and> 0 < 1 - exp (- x)"
proof -
  have "(0::real) < 1 / 10 ^ 14" by simp
  with assms have "0 < x" by linarith
  then have "exp (- x) < 1" by simp
  with assms show ?thesis by (simp add: fn_for_beta_def)
qed

lemma fn_for_beta_negative:
  assumes "x < 0"
  shows "fn_for_beta x r = 0.5 * x - x * r"
proof -
  have "(0::real) < 1 / 10 ^ 14" by simp
  with assms have "x < 1 / 10 ^ 14" by linarith
  then show ?thesis by (simp add: fn_for_beta_def)
qed

text \<open>
  C5. The claim: in \<open>fn_entropy\<close> and in \<open>fn_for_beta\<close> the limiting branch is taken
  when the near-singular quantity is below \<open>1e-14\<close> in absolute value, and the general
  branch whenever the absolute value is at or above the threshold. \<open>fn_entropy\<close> tests
  \<open>abs(delta_S)\<close>; \<open>fn_for_beta\<close> tests \<open>x\<close> without the absolute value, so at
  \<open>x = -2\<close> (absolute value \<open>2\<close>, above the threshold) with
  \<open>meanE_over_deltaE = 0\<close> it returns the linear branch's \<open>-1\<close>, which is not the
  general branch's value \<open>x/(1 - exp(-x)) - 1 - x*meanE_over_deltaE\<close>.
\<close>

theorem fn_for_beta_negative_argument:
  "1 / 10 ^ 14 \<le> \<bar>- 2 :: real\<bar>
   \<and> fn_for_beta (- 2) 0 = - 1
   \<and> (- 2) / (1 - exp (- (- 2))) - 1 - (- 2) * 0 \<noteq> (- 1 :: real)"
proof -
  have "(1::real) < exp 2" by simp
  then have "(- 2) / (1 - exp (2::real)) \<noteq> 0" by simp
  then show ?thesis by (simp add: fn_for_beta_def)
qed

subsection \<open>Properties of the per-bin solver and the chain builder\<close>

lemma py_index_nat: "i < length xs \<Longrightarrow> py_index xs (int i) = Inr (xs ! i)"
  by (simp add: py_index_def Let_def)

lemma py_index_pred: "0 < i \<Longrightarrow> i < length xs \<Longrightarrow> py_index xs (int i - 1) = Inr (xs ! (i - 1))"
  by (simp add: py_index_def Let_def nat_diff_distrib')

lemma nd_index_nat:
  "nd_index lnw (int i) =
     (case lnw of Scalar v \<Rightarrow> Inl IndexError
      | Vec ws \<Rightarrow> if i < length ws then Inr (ws ! i) else Inl IndexError)"
  by (cases lnw) (simp_all add: nd_index_def py_index_def Let_def)

lemma optimize_bin_entropy_nat:
  assumes "0 < i" and "i < length E"
  shows "optimize_bin_entropy r (int i) E lnw s =
     (case lnw of Scalar v \<Rightarrow> Inl IndexError
      | Vec ws \<Rightarrow>
          if \<not> i < length ws then Inl IndexError
          else if \<not> E ! i < E ! (i - 1) then Inl AssertionError
          else Inr (sol_x (r (\<lambda>S_i_1. fn_entropy S_i_1 (E ! (i - 1)) (E ! i) (ws ! i) s) 0)))"
  using assms
  by (cases lnw)
     (auto simp add: optimize_bin_entropy_def py_index_nat py_index_pred nd_index_nat Let_def
        fn_entropy_def split: sum.splits)

lemma optimize_bin_entropy_succeeds:
  assumes "0 < i" and "i < length E"
  shows "(\<exists>v. optimize_bin_entropy r (int i) E lnw s = Inr v) \<longleftrightarrow> bin_solvable E lnw i"
  using assms by (cases lnw) (auto simp add: optimize_bin_entropy_nat bin_solvable_def)

lemma optimize_bin_entropy_error:
  assumes "0 < i" and "i < length E" and "optimize_bin_entropy r (int i) E lnw s = Inl e"
  shows "\<not> bin_solvable E lnw i \<and> (e = IndexError \<or> e = AssertionError \<and> \<not> E ! i < E ! (i - 1))"
  using assms by (cases lnw) (auto simp add: optimize_bin_entropy_nat bin_solvable_def split: if_splits)


lemma chain_loop_succeeds:
  assumes "\<forall>i\<in>set idx. 0 < i \<and> i < length E"
  shows "(\<exists>S'. chain_loop r E lnw idx S = Inr S') \<longleftrightarrow> (\<forall>i\<in>set idx. bin_solvable E lnw i)"
  using assms
proof (induction idx arbitrary: S)
  case Nil
  then show ?case by simp
next
  case (Cons i rest)
  then have i: "0 < i" "i < length E" by simp_all
  show ?case
  proof (cases "optimize_bin_entropy r (int i) E lnw (S ! i)")
    case (Inl e)
    with i have "\<not> bin_solvable E lnw i" by (simp add: optimize_bin_entropy_error)
    with Inl show ?thesis by simp
  next
    case (Inr v)
    with i have "bin_solvable E lnw i"
      using optimize_bin_entropy_succeeds [of i E r lnw "S ! i"] by auto
    with Inr Cons show ?thesis by simp
  qed
qed


lemma rev_upt_two: "2 \<le> k \<Longrightarrow> rev [2..<Suc k] = k # rev [2..<k]"
  by simp

lemma chain_loop_down:
  assumes "k \<le> length E" and "length S = length E"
    and "chain_loop r E lnw (rev [2..<k]) S = Inr S'"
  shows "length S' = length E
         \<and> (\<forall>j. k - 1 \<le> j \<longrightarrow> S' ! j = S ! j)
         \<and> (\<forall>i. 2 \<le> i \<and> i < k \<longrightarrow>
               optimize_bin_entropy r (int i) E lnw (S' ! i) = Inr (S' ! (i - 1)))"
  using assms
proof (induction k arbitrary: S)
  case 0
  then show ?case by simp
next
  case (Suc k)
  show ?case
  proof (cases "2 \<le> k")
    case False
    then have "rev [2..<Suc k] = []" by simp
    with Suc.prems have "S' = S" by simp
    moreover from False have "\<And>i. 2 \<le> i \<Longrightarrow> i < Suc k \<Longrightarrow> False" by linarith
    ultimately show ?thesis using Suc.prems(2) by blast
  next
    case True
    from Suc.prems(3) True
    obtain v where v: "optimize_bin_entropy r (int k) E lnw (S ! k) = Inr v"
      and rest: "chain_loop r E lnw (rev [2..<k]) (S[k - 1 := v]) = Inr S'"
      by (auto simp add: rev_upt_two split: sum.splits)
    from Suc.prems have "k \<le> length E" "length (S[k - 1 := v]) = length E" by simp_all
    from Suc.IH [OF this rest]
    have len: "length S' = length E"
      and keep: "\<And>j. k - 1 \<le> j \<Longrightarrow> S' ! j = S[k - 1 := v] ! j"
      and solved: "\<And>i. 2 \<le> i \<Longrightarrow> i < k \<Longrightarrow>
            optimize_bin_entropy r (int i) E lnw (S' ! i) = Inr (S' ! (i - 1))"
      by auto
    from Suc.prems True have klen: "k - 1 < length S" by simp
    have at_k: "S' ! k = S ! k" using keep [of k] True by simp
    have at_pred: "S' ! (k - 1) = v" using keep [of "k - 1"] klen by simp
    have "\<And>j. Suc k - 1 \<le> j \<Longrightarrow> S' ! j = S ! j"
      using keep True by simp
    moreover have "\<And>i. 2 \<le> i \<Longrightarrow> i < Suc k \<Longrightarrow>
        optimize_bin_entropy r (int i) E lnw (S' ! i) = Inr (S' ! (i - 1))"
    proof -
      fix i :: nat
      assume "2 \<le> i" "i < Suc k"
      then consider "i < k" | "i = k" by linarith
      then show "optimize_bin_entropy r (int i) E lnw (S' ! i) = Inr (S' ! (i - 1))"
      proof cases
        case 1
        with \<open>2 \<le> i\<close> show ?thesis by (rule solved)
      next
        case 2
        with v at_k at_pred show ?thesis by simp
      qed
    qed
    ultimately show ?thesis using len by blast
  qed
qed

lemma chain_indices: "\<forall>i\<in>set (rev [2..<length E]). 0 < i \<and> i < length E"
  by auto

lemma compute_entropy_succeeds:
  "(\<exists>S. compute_entropy_given_Smin r Smin E lnw = Inr S) \<longleftrightarrow>
     (E \<noteq> [] \<and> (\<forall>i. 2 \<le> i \<and> i < length E \<longrightarrow> bin_solvable E lnw i))"
proof (cases "E = []")
  case True
  then show ?thesis by (simp add: compute_entropy_given_Smin_def)
next
  case False
  then show ?thesis
    using chain_loop_succeeds [OF chain_indices, of r E lnw
        "(replicate (length E) 0)[length E - 1 := Smin]"]
    by (auto simp add: compute_entropy_given_Smin_def Let_def)
qed

lemma compute_entropy_result:
  assumes "compute_entropy_given_Smin r Smin E lnw = Inr S"
  shows "length S = length E \<and> S ! (length E - 1) = Smin
         \<and> (\<forall>i. 2 \<le> i \<and> i < length E \<longrightarrow>
               optimize_bin_entropy r (int i) E lnw (S ! i) = Inr (S ! (i - 1)))"
proof -
  let ?S0 = "(replicate (length E) (0::real))[length E - 1 := Smin]"
  from assms have ne: "E \<noteq> []" and run: "chain_loop r E lnw (rev [2..<length E]) ?S0 = Inr S"
    by (auto simp add: compute_entropy_given_Smin_def Let_def split: if_splits)
  have "length ?S0 = length E" by simp
  from chain_loop_down [OF order_refl this run]
  have len: "length S = length E"
    and keep: "\<forall>j. length E - 1 \<le> j \<longrightarrow> S ! j = ?S0 ! j"
    and solved: "\<forall>i. 2 \<le> i \<and> i < length E \<longrightarrow>
           optimize_bin_entropy r (int i) E lnw (S ! i) = Inr (S ! (i - 1))"
    by auto
  from keep ne have "S ! (length E - 1) = Smin" by simp
  with len solved show ?thesis by blast
qed


lemma optimize_bin_entropy_error_independent:
  assumes "0 < i" and "i < length E"
  shows "optimize_bin_entropy r (int i) E lnw s = Inl e \<longleftrightarrow>
         optimize_bin_entropy r' (int i) E lnw s' = Inl e"
  using assms by (cases lnw) (auto simp add: optimize_bin_entropy_nat)

lemma chain_loop_error_independent:
  assumes "\<forall>i\<in>set idx. 0 < i \<and> i < length E"
  shows "chain_loop r E lnw idx S = Inl e \<longleftrightarrow> chain_loop r' E lnw idx S' = Inl e"
  using assms
proof (induction idx arbitrary: S S')
  case Nil
  then show ?case by simp
next
  case (Cons i rest)
  then have i: "0 < i" "i < length E" by simp_all
  have indep: "optimize_bin_entropy r (int i) E lnw (S ! i) = Inl e' \<longleftrightarrow>
      optimize_bin_entropy r' (int i) E lnw (S' ! i) = Inl e'" for e'
    using i by (rule optimize_bin_entropy_error_independent)
  show ?case
  proof (cases "optimize_bin_entropy r (int i) E lnw (S ! i)")
    case (Inl e1)
    with indep [of e1] have "optimize_bin_entropy r' (int i) E lnw (S' ! i) = Inl e1" by blast
    with Inl show ?thesis by simp
  next
    case (Inr v)
    have "optimize_bin_entropy r' (int i) E lnw (S' ! i) \<noteq> Inl e'" for e'
      using indep [of e'] Inr by simp
    then obtain v' where v': "optimize_bin_entropy r' (int i) E lnw (S' ! i) = Inr v'"
      by (cases "optimize_bin_entropy r' (int i) E lnw (S' ! i)") auto
    from Cons.prems have "\<forall>i\<in>set rest. 0 < i \<and> i < length E" by simp
    from Cons.IH [OF this, of "S[i - 1 := v]" "S'[i - 1 := v']"] Inr v'
    show ?thesis by simp
  qed
qed

lemma chain_loop_first_unchanged:
  assumes "\<forall>i\<in>set idx. 2 \<le> i" and "chain_loop r E lnw idx S = Inr S'"
  shows "S' ! 0 = S ! 0"
  using assms
proof (induction idx arbitrary: S)
  case Nil
  then show ?case by simp
next
  case (Cons i rest)
  then obtain v where "chain_loop r E lnw rest (S[i - 1 := v]) = Inr S'"
    by (auto split: sum.splits)
  with Cons.IH [of "S[i - 1 := v]"] Cons.prems(1) have "S' ! 0 = S[i - 1 := v] ! 0" by simp
  moreover from Cons.prems(1) have "i - 1 \<noteq> 0" by simp
  ultimately show ?case by simp
qed

lemma first_boundary_placeholder:
  assumes "compute_entropy_given_Smin r Smin E lnw = Inr S" and "2 \<le> length E"
  shows "S ! 0 = 0"
proof -
  from assms have run: "chain_loop r E lnw (rev [2..<length E])
      ((replicate (length E) 0)[length E - 1 := Smin]) = Inr S"
    by (auto simp add: compute_entropy_given_Smin_def Let_def split: if_splits)
  have "\<forall>i\<in>set (rev [2..<length E]). 2 \<le> i" by simp
  from chain_loop_first_unchanged [OF this run] have "S ! 0 = (replicate (length E) (0::real))[length E - 1 := Smin] ! 0" .
  moreover from assms(2) have "length E - 1 \<noteq> 0" "0 < length E" by linarith+
  ultimately show ?thesis by simp
qed

text \<open>
  The exception of the chain builder does not depend on the anchor nor on the solver's
  answers: the objective handed to the minimizer raises exactly when the rebuild in
  \<open>optimize_entropy\<close> does, and raises the same exception.
\<close>

lemma chain_error_independent:
  "compute_entropy_given_Smin r Smin E lnw = Inl e \<longleftrightarrow>
   compute_entropy_given_Smin r' Smin' E lnw = Inl e"
  using chain_loop_error_independent [OF chain_indices, of r E lnw _ e r']
  by (simp add: compute_entropy_given_Smin_def Let_def)

text \<open>
  What the loop does as written: whenever \<open>compute_entropy_given_Smin\<close> returns, the
  result has the length of the energy-boundary array, its last entry is \<open>Smin\<close>, and for
  every \<open>i = len - 1, ..., 2\<close> the entry \<open>i - 1\<close> is the solver's answer for bin \<open>i\<close>
  given the entry \<open>i\<close>, with \<open>E[i-1] > E[i]\<close>. Nothing is said of the entry \<open>0\<close>.
\<close>

lemma chain_builder_steps:
  assumes "compute_entropy_given_Smin r Smin E lnw = Inr S"
  shows "length S = length E \<and> S ! (length E - 1) = Smin
         \<and> (\<forall>i. 2 \<le> i \<and> i < length E \<longrightarrow>
               E ! i < E ! (i - 1)
               \<and> optimize_bin_entropy r (int i) E lnw (S ! i) = Inr (S ! (i - 1)))"
proof -
  from assms have "\<exists>S. compute_entropy_given_Smin r Smin E lnw = Inr S" by blast
  then have "\<forall>i. 2 \<le> i \<and> i < length E \<longrightarrow> bin_solvable E lnw i"
    by (simp add: compute_entropy_succeeds)
  then have "\<forall>i. 2 \<le> i \<and> i < length E \<longrightarrow> E ! i < E ! (i - 1)"
    by (simp add: bin_solvable_def)
  with compute_entropy_result [OF assms] show ?thesis by blast
qed

text \<open>
  C2. The claim: given the anchor at the terminal boundary, the chain builder calls the
  Solver bin by bin so that every one of the \<open>n + 1\<close> boundaries receives a solved
  entropy and none is left at its initial placeholder. The loop runs over
  \<open>range(len(energy_boundaries)-1, 1, -1)\<close>, which ends at \<open>i = 2\<close>: with four boundaries
  and a solver that answers \<open>7\<close>, the boundaries 1 and 2 receive \<open>7\<close> and the boundary
  0 keeps the placeholder \<open>0\<close> of \<open>np.zeros_like\<close>; with two boundaries (one bin) the
  solver is not called at all. The boundary 0 keeps its placeholder for every input
  and every solver (lemma \<open>first_boundary_placeholder\<close>).
\<close>

theorem chain_builder_first_boundary_unsolved:
  "compute_entropy_given_Smin (fixed_root 7 True) 5 [3, 2, 1, 0] (Vec [0, 0, 0, 0])
     = Inr [0, 7, 7, 5]
   \<and> compute_entropy_given_Smin (fixed_root 7 True) 5 [1, 0] (Vec [0, 0]) = Inr [0, 5]"
  by (simp add: compute_entropy_given_Smin_def Let_def upt_rec optimize_bin_entropy_def
      py_index_def nd_index_def fn_entropy_def fixed_root_def)




subsection \<open>Properties of the smoothness penalty and the calibration\<close>

lemma badness_loop_finite:
  assumes "\<forall>i\<in>set idx. E ! (i + 1) \<noteq> E ! i \<and> E ! (i + 2) \<noteq> E ! (i + 1) \<and> E ! (i + 2) \<noteq> E ! i"
  shows "badness_loop E S idx (Finite a) = Finite (a + (\<Sum>i\<leftarrow>idx. slope_jump E S i))"
  using assms
proof (induction idx arbitrary: a)
  case Nil
  then show ?case by simp
next
  case (Cons i rest)
  then have ne: "E ! (i + 1) - E ! i \<noteq> 0" "E ! (i + 2) - E ! (i + 1) \<noteq> 0"
    "E ! (i + 2) - E ! (i + 1) + (E ! (i + 1) - E ! i) \<noteq> 0"
    by simp_all
  have step: "np_add (Finite a)
      (np_abs (np_div (np_sub (np_div (Finite (S ! (i + 2) - S ! (i + 1))) (Finite (E ! (i + 2) - E ! (i + 1))))
                              (np_div (Finite (S ! (i + 1) - S ! i)) (Finite (E ! (i + 1) - E ! i))))
                      (Finite (E ! (i + 2) - E ! (i + 1) + (E ! (i + 1) - E ! i)))))
      = Finite (a + slope_jump E S i)"
    using ne by (simp add: np_sub_def slope_jump_def add.commute)
  from Cons.prems have "\<forall>i\<in>set rest. E ! (i + 1) \<noteq> E ! i \<and> E ! (i + 2) \<noteq> E ! (i + 1) \<and> E ! (i + 2) \<noteq> E ! i"
    by simp
  from Cons.IH [OF this] step show ?case by (simp add: Let_def add.assoc)
qed

lemma sum_list_upt_lessThan: "(\<Sum>i\<leftarrow>[0..<k]. f i) = (\<Sum>i<k. (f i :: real))"
  by (simp add: interv_sum_list_conv_sum_set_nat atLeast0LessThan)

lemma np_abs_not_neginf: "np_abs v \<noteq> NegInf"
  by (cases v) simp_all

lemma np_add_nonfinite:
  assumes "\<not> is_finite a \<or> \<not> is_finite b" and "a \<noteq> NegInf" and "b \<noteq> NegInf"
  shows "\<not> is_finite (np_add a b) \<and> np_add a b \<noteq> NegInf"
  using assms by (cases a; cases b) (simp_all add: is_finite_def)

lemma slope_term_nonfinite:
  assumes "de1 = 0 \<or> de2 = 0 \<or> de2 + de1 = 0"
  shows "\<not> is_finite (np_abs (np_div (np_sub (np_div (Finite dS2) (Finite de2))
                                            (np_div (Finite dS1) (Finite de1)))
                                    (Finite (de2 + de1))))"
proof -
  let ?q2 = "np_div (Finite dS2) (Finite de2)" and ?q1 = "np_div (Finite dS1) (Finite de1)"
  show ?thesis
    using assms
    by (cases ?q2; cases ?q1) (auto simp add: is_finite_def np_sub_def split: if_splits)
qed

lemma badness_loop_stays_nonfinite:
  assumes "\<not> is_finite acc" and "acc \<noteq> NegInf"
  shows "\<not> is_finite (badness_loop E S idx acc) \<and> badness_loop E S idx acc \<noteq> NegInf"
  using assms
proof (induction idx arbitrary: acc)
  case Nil
  then show ?case by simp
next
  case (Cons i rest)
  show ?case
    unfolding badness_loop.simps Let_def
    by (rule Cons.IH) (use Cons.prems np_abs_not_neginf np_add_nonfinite in blast)+
qed

lemma badness_loop_zero_divisor:
  assumes "\<exists>i\<in>set idx. E ! (i + 1) = E ! i \<or> E ! (i + 2) = E ! (i + 1) \<or> E ! (i + 2) = E ! i"
  shows "\<not> is_finite (badness_loop E S idx (Finite a))"
  using assms
proof (induction idx arbitrary: a)
  case Nil
  then show ?case by simp
next
  case (Cons i rest)
  let ?de1 = "E ! (i + 1) - E ! i" and ?de2 = "E ! (i + 2) - E ! (i + 1)"
  let ?t = "np_abs (np_div (np_sub (np_div (Finite (S ! (i + 2) - S ! (i + 1))) (Finite ?de2))
                                   (np_div (Finite (S ! (i + 1) - S ! i)) (Finite ?de1)))
                           (Finite (?de2 + ?de1)))"
  have unfold: "badness_loop E S (i # rest) (Finite a) = badness_loop E S rest (np_add (Finite a) ?t)"
    by (simp add: Let_def)
  show ?case
  proof (cases "E ! (i + 1) = E ! i \<or> E ! (i + 2) = E ! (i + 1) \<or> E ! (i + 2) = E ! i")
    case True
    then have "?de1 = 0 \<or> ?de2 = 0 \<or> ?de2 + ?de1 = 0" by auto
    then have "\<not> is_finite ?t" by (rule slope_term_nonfinite)
    then have "\<not> is_finite (np_add (Finite a) ?t) \<and> np_add (Finite a) ?t \<noteq> NegInf"
      using np_abs_not_neginf by (intro np_add_nonfinite) auto
    then show ?thesis unfolding unfold using badness_loop_stays_nonfinite by blast
  next
    case False
    then have "?de1 \<noteq> 0" "?de2 \<noteq> 0" "?de2 + ?de1 \<noteq> 0" by auto
    then obtain b where "np_add (Finite a) ?t = Finite b" by (simp add: np_sub_def)
    moreover from Cons.prems False
    have "\<exists>i\<in>set rest. E ! (i + 1) = E ! i \<or> E ! (i + 2) = E ! (i + 1) \<or> E ! (i + 2) = E ! i"
      by auto
    ultimately show ?thesis unfolding unfold using Cons.IH by simp
  qed
qed

text \<open>
  C4 (as amended). For every energy-boundary array and log-weight array: when the chain
  builder raises, \<open>entropy_boundary_badness\<close> raises the same exception; when the chain
  builder returns, \<open>entropy_boundary_badness\<close> returns the sum over the interior
  boundaries of \<open>|(dS2/de2 - dS1/de1)/(de1 + de2)|\<close>, where \<open>de1\<close>, \<open>de2\<close> are the
  differences of adjacent energy boundaries and \<open>dS1\<close>, \<open>dS2\<close> those of the chain built
  from \<open>Smin\<close>: a finite number when no divisor is zero, an infinity or nan (nothing is
  raised) when one is. \<open>optimize_entropy\<close> returns the chain rebuilt with the \<open>Smin\<close>
  that the scalar minimizer answered for this penalty.
\<close>

theorem entropy_boundary_badness_outcome:
  "(case compute_entropy_given_Smin r Smin E lnw of
      Inl e \<Rightarrow> entropy_boundary_badness r Smin E lnw = Inl e
    | Inr S \<Rightarrow>
        (\<exists>b. entropy_boundary_badness r Smin E lnw = Inr b
           \<and> (if no_zero_divisor E
               then b = Finite (\<Sum>i<length E - 2.
                      \<bar>((S ! (i + 2) - S ! (i + 1)) / (E ! (i + 2) - E ! (i + 1))
                         - (S ! (i + 1) - S ! i) / (E ! (i + 1) - E ! i))
                        / ((E ! (i + 1) - E ! i) + (E ! (i + 2) - E ! (i + 1)))\<bar>)
               else \<not> is_finite b)))
   \<and> optimize_entropy m r E lnw =
       compute_entropy_given_Smin r
         (m (\<lambda>Smin. entropy_boundary_badness r Smin E lnw)) E lnw"
proof -
  have loop_value: "if no_zero_divisor E
      then badness_loop E S [0..<length E - 2] (Finite 0) =
             Finite (\<Sum>i<length E - 2.
                      \<bar>((S ! (i + 2) - S ! (i + 1)) / (E ! (i + 2) - E ! (i + 1))
                         - (S ! (i + 1) - S ! i) / (E ! (i + 1) - E ! i))
                        / ((E ! (i + 1) - E ! i) + (E ! (i + 2) - E ! (i + 1)))\<bar>)
      else \<not> is_finite (badness_loop E S [0..<length E - 2] (Finite 0))" for S
  proof (cases "no_zero_divisor E")
    case True
    then have "\<forall>i\<in>set [0..<length E - 2].
        E ! (i + 1) \<noteq> E ! i \<and> E ! (i + 2) \<noteq> E ! (i + 1) \<and> E ! (i + 2) \<noteq> E ! i"
      by (simp add: no_zero_divisor_def list_all_iff)
    then have "badness_loop E S [0..<length E - 2] (Finite 0) =
        Finite (\<Sum>i<length E - 2. slope_jump E S i)"
      by (simp add: badness_loop_finite sum_list_upt_lessThan)
    with True show ?thesis by (simp add: slope_jump_def [abs_def])
  next
    case False
    then have "\<exists>i\<in>set [0..<length E - 2].
        E ! (i + 1) = E ! i \<or> E ! (i + 2) = E ! (i + 1) \<or> E ! (i + 2) = E ! i"
      by (auto simp add: no_zero_divisor_def list_all_iff)
    then have "\<not> is_finite (badness_loop E S [0..<length E - 2] (Finite 0))"
      by (rule badness_loop_zero_divisor)
    with False show ?thesis by simp
  qed
  have first: "case compute_entropy_given_Smin r Smin E lnw of
      Inl e \<Rightarrow> entropy_boundary_badness r Smin E lnw = Inl e
    | Inr S \<Rightarrow>
        (\<exists>b. entropy_boundary_badness r Smin E lnw = Inr b
           \<and> (if no_zero_divisor E
               then b = Finite (\<Sum>i<length E - 2.
                      \<bar>((S ! (i + 2) - S ! (i + 1)) / (E ! (i + 2) - E ! (i + 1))
                         - (S ! (i + 1) - S ! i) / (E ! (i + 1) - E ! i))
                        / ((E ! (i + 1) - E ! i) + (E ! (i + 2) - E ! (i + 1)))\<bar>)
               else \<not> is_finite b))"
  proof (cases "compute_entropy_given_Smin r Smin E lnw")
    case (Inl e)
    then show ?thesis by (simp add: entropy_boundary_badness_def)
  next
    case (Inr S)
    then have "entropy_boundary_badness r Smin E lnw =
        Inr (badness_loop E S [0..<length E - 2] (Finite 0))"
      by (simp add: entropy_boundary_badness_def)
    with loop_value [of S] Inr show ?thesis by (cases "no_zero_divisor E") simp_all
  qed
  have "optimize_entropy m r E lnw =
      compute_entropy_given_Smin r (m (\<lambda>Smin. entropy_boundary_badness r Smin E lnw)) E lnw"
    by (simp add: optimize_entropy_def Let_def)
  with first show ?thesis by blast
qed

theorem entropy_boundary_badness_outcome_witness:
  "entropy_boundary_badness (fixed_root 7 True) 5 [2, 1, 0] (Vec [0, 0, 0]) = Inr (Finite (9 / 2))
   \<and> optimize_entropy (fixed_minimizer 3) (fixed_root 7 True) [2, 1, 0] (Vec [0, 0, 0])
       = Inr [0, 7, 3]"
proof -
  have chain: "compute_entropy_given_Smin (fixed_root 7 True) s [2, 1, 0] (Vec [0, 0, 0])
      = Inr [0, 7, s]" for s
    by (simp add: compute_entropy_given_Smin_def Let_def upt_rec optimize_bin_entropy_def
        py_index_def nd_index_def fn_entropy_def fixed_root_def)
  have distinct: "no_zero_divisor [2, 1, 0]"
    by (simp add: no_zero_divisor_def upt_rec)
  from entropy_boundary_badness_outcome
    [of "fixed_root 7 True" 5 "[2, 1, 0]" "Vec [0, 0, 0]" "fixed_minimizer 3"]
  show ?thesis by (auto simp add: chain distinct fixed_minimizer_def)
qed

text \<open>
  C4 (as stated) fails: with three boundaries and two log-weights the lookup \<open>lnw[2]\<close>
  raises IndexError, so the penalty is never computed and \<open>optimize_entropy\<close> returns
  no chain.
\<close>

theorem entropy_boundary_badness_raises_counterexample:
  "entropy_boundary_badness (fixed_root 7 True) 5 [2, 1, 0] (Vec [3, 4]) = Inl IndexError
   \<and> optimize_entropy (fixed_minimizer 3) (fixed_root 7 True) [2, 1, 0] (Vec [3, 4])
       = Inl IndexError"
  by (simp add: entropy_boundary_badness_def optimize_entropy_def compute_entropy_given_Smin_def
      Let_def upt_rec optimize_bin_entropy_def py_index_def nd_index_def fn_entropy_def
      fixed_root_def fixed_minimizer_def)

text \<open>A zero divisor: the first two boundaries are equal and the penalty is \<open>inf\<close>.\<close>

lemma zero_divisor_example:
  "entropy_boundary_badness (fixed_root 7 True) 5 [1, 1, 0] (Vec [0, 0, 0]) = Inr PosInf"
  by (simp add: entropy_boundary_badness_def compute_entropy_given_Smin_def
      Let_def upt_rec optimize_bin_entropy_def py_index_def nd_index_def fn_entropy_def
      fixed_root_def np_sub_def)

subsection \<open>Non-convergence of the root finders\<close>

text \<open>
  C6 (as amended). \<open>optimize_bin_entropy\<close> and \<open>find_beta_deltaE\<close> return the root
  finder's final iterate (\<open>sol.x[0]\<close>, \<open>sol.root\<close>) whether or not the finder
  converged: setting the convergence flag of the finder's result to any value leaves
  their outcome unchanged.
\<close>

theorem convergence_flag_ignored:
  "optimize_bin_entropy (\<lambda>f x0. (r f x0)\<lparr>sol_success := flag\<rparr>) i E_bounds lnw S_i
     = optimize_bin_entropy r i E_bounds lnw S_i
   \<and> find_beta_deltaE (\<lambda>f x0 x1. (s f x0 x1)\<lparr>sol_converged := flag\<rparr>) meanE_over_deltaE
     = find_beta_deltaE s meanE_over_deltaE"
  by (simp add: optimize_bin_entropy_def find_beta_deltaE_def Let_def split: sum.splits)

text \<open>
  C6 (as stated) fails: a run of the root finder that ends at the iterate \<open>7\<close> without
  converging and one that converges to \<open>7\<close> give the caller the same number, in both
  functions.
\<close>

theorem non_convergence_silent_counterexample:
  "optimize_bin_entropy (fixed_root 7 False) 2 [2, 1, 0] (Vec [0, 0, 0]) 5 = Inr 7
   \<and> optimize_bin_entropy (fixed_root 7 True) 2 [2, 1, 0] (Vec [0, 0, 0]) 5 = Inr 7
   \<and> find_beta_deltaE (fixed_root_scalar 7 False) (1 / 4) = 7
   \<and> find_beta_deltaE (fixed_root_scalar 7 True) (1 / 4) = 7"
  by (simp add: optimize_bin_entropy_def py_index_def nd_index_def fn_entropy_def Let_def
      fixed_root_def find_beta_deltaE_def fixed_root_scalar_def)

subsection \<open>Properties of the loader\<close>









subsection \<open>Properties of the reference density of states\<close>

lemma unrecognised_kind_selects_other:
  assumes "\<not> py_in ''linear'' base" and "\<not> py_in ''quadratic'' base"
    and "system ''kind'' = Some kind"
    and "kind \<noteq> YStr ''Gaussian''" and "kind \<noteq> YStr ''Erfinv''" and "kind \<noteq> YStr ''Pieces''"
  shows "exact_density_of_states base system = Inr Other"
  using assms by (simp add: exact_density_of_states_def lookup_def)

text \<open>
  C8 (as amended). For every energy grid, the function selected for an unrecognised
  kind, \<open>other_density_of_states\<close>, returns a density equal to zero at every energy,
  and the log-density the caller takes of it, \<open>np.log(0)\<close>, is \<open>-inf\<close> at every energy;
  nothing is raised.
\<close>

theorem other_density_log_is_minus_infinity:
  "other_density_of_states E = replicate (length E) 0
   \<and> exact_entropy other_density_of_states E = replicate (length E) NegInf"
  by (simp add: other_density_of_states_def exact_entropy_def np_log_def)

text \<open>C8 (as stated) fails: at the energy \<open>1/2\<close> the log-density is \<open>-inf\<close>, not zero.\<close>

theorem other_density_log_counterexample:
  "exact_entropy other_density_of_states [1 / 2] = [NegInf] \<and> NegInf \<noteq> Finite 0"
  by (simp add: other_density_of_states_def exact_entropy_def np_log_def)

text \<open>
  C9 (as amended). For two runs with the same metadata the selected reference function
  is the same provided the two base paths agree on containing the text \<open>linear\<close> and on
  containing the text \<open>quadratic\<close>; the selection inspects the base path first and the
  metadata kind only for a path that contains neither.
\<close>

theorem selection_depends_on_base_keywords:
  assumes "py_in ''linear'' base1 \<longleftrightarrow> py_in ''linear'' base2"
    and "py_in ''quadratic'' base1 \<longleftrightarrow> py_in ''quadratic'' base2"
  shows "exact_density_of_states base1 system = exact_density_of_states base2 system"
  using assms by (simp add: exact_density_of_states_def)

theorem selection_depends_on_base_keywords_witness:
  "(py_in ''linear'' ''runs/a'' \<longleftrightarrow> py_in ''linear'' ''out/b'')
   \<and> (py_in ''quadratic'' ''runs/a'' \<longleftrightarrow> py_in ''quadratic'' ''out/b'')
   \<and> exact_density_of_states ''runs/a'' [''kind'' \<mapsto> YStr ''Gaussian'', ''sigma'' \<mapsto> YNum 1]
       = exact_density_of_states ''out/b'' [''kind'' \<mapsto> YStr ''Gaussian'', ''sigma'' \<mapsto> YNum 1]"
proof -
  have l: "py_in ''linear'' ''runs/a'' \<longleftrightarrow> py_in ''linear'' ''out/b''" by simp
  have q: "py_in ''quadratic'' ''runs/a'' \<longleftrightarrow> py_in ''quadratic'' ''out/b''" by simp
  from selection_depends_on_base_keywords [OF l q] l q show ?thesis by blast
qed

text \<open>
  C9 (as stated) fails: with the same metadata (kind Gaussian, sigma 1) the base
  \<open>runs/linear-gauss\<close> selects the linear density and the base \<open>runs/gauss\<close> the
  Gaussian one.
\<close>

theorem selection_by_path_counterexample:
  "exact_density_of_states ''runs/linear-gauss''
       [''kind'' \<mapsto> YStr ''Gaussian'', ''sigma'' \<mapsto> YNum 1]
     = Inr Linear
   \<and> exact_density_of_states ''runs/gauss''
       [''kind'' \<mapsto> YStr ''Gaussian'', ''sigma'' \<mapsto> YNum 1]
     = Inr (Gaussian (YNum 1))"
  by (simp add: exact_density_of_states_def lookup_def)

subsection \<open>Order of the checkpoints\<close>

lemma tracker_loop_moves:
  assumes "tracker_loop float_of max_error fs (moves, error) = Inr (moves', error')"
  shows "map Inr moves' = map Inr moves @ map (\<lambda>f. float_of (basename (splitext_root f))) fs"
  using assms
proof (induction fs arbitrary: moves error)
  case Nil
  then show ?case by simp
next
  case (Cons f rest)
  then obtain mymove err
    where move: "float_of (basename (splitext_root f)) = Inr mymove"
      and run: "tracker_loop float_of max_error rest (moves @ [mymove], error @ [err])
                  = Inr (moves', error')"
    by (auto simp add: Let_def split: sum.splits)
  from Cons.IH [OF run] move show ?case by simp
qed

text \<open>
  C3. The claim: the checkpoints are processed and emitted in ascending numeric order
  of their move counts, so that \<open>100\<close>, \<open>20\<close>, \<open>5\<close> come out as \<open>[5, 20, 100]\<close>. The loop
  runs over \<open>sorted(glob.glob(...))\<close>, which orders the path strings as text, and parses
  the move count only afterwards: the three checkpoints come out as \<open>[100, 20, 5]\<close>.
\<close>

theorem checkpoints_in_text_order:
  "convergence_series float_of_digits (\<lambda>f. Inr 0)
       [''run/5.cbor'', ''run/100.cbor'', ''run/20.cbor'']
     = Inr ([100, 20, 5], [0, 0, 0])"
  by code_simp

end
